theory Spec2Isabelle
  imports Main "HOL-Library.Word" "HOL-Library.Sublist"
begin

unbundle bit_operations_syntax

section \<open>Cell values and the Python primitives the validator calls\<close>

text \<open>
  A cell of a pandas column holds a Python object. The objects modelled are the scalars
  a column ordinarily stores: \<open>None\<close>, a float (its IEEE-754 binary64 bits, so that NaN is
  a float like any other), an unbounded \<open>int\<close>, a \<open>bool\<close>, a complex number (two
  binary64 parts), a \<open>str\<close> (its characters are the code points below 256) and an
  opaque object (the natural number tells two of them apart) that is no number at all:
  \<open>pd.isnull\<close> is False on it and \<open>float\<close> raises TypeError. A cell can also hold a
  list (or an array): \<open>PyList a b rest\<close> is the list \<open>[a, b] + rest\<close>, of two elements or
  more. Shorter lists are not modelled: \<open>pd.isnull\<close> turns a list into an array of
  booleans, the truth value of an array of one element is that of the element, and that
  of an empty array depends on the version of numpy.
\<close>

datatype pyval =
    PyNone
  | PyFloat "64 word"
  | PyInt int
  | PyBool bool
  | PyComplex "64 word" "64 word"
  | PyStr string
  | PyObj nat
  | PyList pyval pyval "pyval list"

text \<open>
  The exceptions in play. The validator itself raises \<open>ValueError\<close> with a message built
  from the requested name and \<open>list(df.columns)\<close> (source lines 27-29); \<open>float\<close> raises
  \<open>ValueError\<close> on a string that is no float literal, \<open>TypeError\<close> on an object that is
  no number and \<open>OverflowError\<close> on an int too large for a double; \<open>serie.dtype\<close> raises
  \<open>AttributeError\<close> when \<open>df[columna]\<close> is not a Series; the truth value of an array of
  two elements or more raises \<open>ValueError\<close> (it is ambiguous).
\<close>

datatype message =
    NoExiste string "string list"
  | CouldNotConvert
  | AmbiguousTruth

datatype error =
    ValueError message
  | TypeError
  | OverflowError
  | AttributeError

subsection \<open>\<open>pd.isnull\<close>\<close>

text \<open>
  A binary64 is NaN when its exponent bits are all set and its fraction is not zero.
  \<open>isnull\<close> is the null test on a scalar, and what \<open>serie.isnull()\<close> holds for each cell
  of a column: a list in a cell is an object like any other there, and not null.
\<close>

definition is_nan :: "64 word \<Rightarrow> bool" where
  "is_nan w = (w AND 0x7FFFFFFFFFFFFFFF > 0x7FF0000000000000)"

fun isnull :: "pyval \<Rightarrow> bool" where
  "isnull PyNone = True"
| "isnull (PyFloat w) = is_nan w"
| "isnull (PyComplex re im) = (is_nan re \<or> is_nan im)"
| "isnull (PyInt n) = False"
| "isnull (PyBool b) = False"
| "isnull (PyStr s) = False"
| "isnull (PyObj k) = False"
| "isnull (PyList a b rest) = False"

text \<open>
  \<open>if pd.isnull(valor)\<close> of source line 64, which stands before the \<open>try\<close>: on a scalar
  \<open>pd.isnull\<close> returns a bool; on a list it returns the array of the null tests of the
  elements (all of them, when the list nests), and the \<open>if\<close> asks for the truth value of
  an array of two elements or more, which raises ValueError.
\<close>

fun if_isnull :: "pyval \<Rightarrow> error + bool" where
  "if_isnull (PyList a b rest) = Inl (ValueError AmbiguousTruth)"
| "if_isnull v = Inr (isnull v)"

subsection \<open>\<open>str.strip\<close>\<close>

text \<open>
  \<open>str.strip()\<close> removes the leading and trailing characters on which \<open>str.isspace\<close>
  holds; below code point 256 these are 9-13, 28-32, 133 and 160.
\<close>

definition isspace :: "char \<Rightarrow> bool" where
  "isspace c =
     (let n = (of_char c :: nat)
      in (9 \<le> n \<and> n \<le> 13) \<or> (28 \<le> n \<and> n \<le> 32) \<or> n = 133 \<or> n = 160)"

definition strip :: "string \<Rightarrow> string" where
  "strip s = rev (dropWhile isspace (rev (dropWhile isspace s)))"

subsection \<open>\<open>float\<close>\<close>

text \<open>
  \<open>float(s)\<close> on a string drops the whitespace around it (the ASCII whitespace 9-13 and
  32, and the non-ASCII spaces, which it first rewrites to a blank) and accepts what is
  left when it matches Python's grammar of float literals, where case does not matter in
  \<open>inf\<close>, \<open>infinity\<close> and \<open>nan\<close>:
  \<^verbatim>\<open>
  sign        ::= "+" | "-"
  digitpart   ::= digit (["_"] digit)*
  number      ::= [digitpart] "." digitpart | digitpart ["."]
  exponent    ::= ("e" | "E") [sign] digitpart
  floatnumber ::= number [exponent]
  floatvalue  ::= [sign] (floatnumber | "inf" | "infinity" | "nan")
  \<close>
  A literal too large for a double is rounded to infinity, so the grammar alone decides.
\<close>

definition float_isspace :: "char \<Rightarrow> bool" where
  "float_isspace c =
     (let n = (of_char c :: nat)
      in (9 \<le> n \<and> n \<le> 13) \<or> n = 32 \<or> n = 133 \<or> n = 160)"

definition float_strip :: "string \<Rightarrow> string" where
  "float_strip s = rev (dropWhile float_isspace (rev (dropWhile float_isspace s)))"

definition is_digit :: "char \<Rightarrow> bool" where
  "is_digit c = (c \<in> set ''0123456789'')"

text \<open>The rest of a digitpart after its first digit: \<open>(["_"] digit)*\<close>, taken greedily.\<close>

fun digit_tail :: "string \<Rightarrow> string" where
  "digit_tail [] = []"
| "digit_tail [c] = (if is_digit c then [] else [c])"
| "digit_tail (c # d # cs) =
     (if is_digit c then digit_tail (d # cs)
      else if c = CHR ''_'' \<and> is_digit d then digit_tail cs
      else c # d # cs)"

text \<open>A digitpart at the head of the string: what follows it, or None when there is none.\<close>

fun digitpart :: "string \<Rightarrow> string option" where
  "digitpart [] = None"
| "digitpart (c # cs) = (if is_digit c then Some (digit_tail cs) else None)"

fun number :: "string \<Rightarrow> string option" where
  "number s =
     (case digitpart s of
        Some r \<Rightarrow>
          (case r of
             [] \<Rightarrow> Some []
           | c # r' \<Rightarrow>
               if c = CHR ''.'' then (case digitpart r' of Some r'' \<Rightarrow> Some r'' | None \<Rightarrow> Some r')
               else Some r)
      | None \<Rightarrow>
          (case s of
             [] \<Rightarrow> None
           | c # r' \<Rightarrow> if c = CHR ''.'' then digitpart r' else None))"

fun drop_sign :: "string \<Rightarrow> string" where
  "drop_sign [] = []"
| "drop_sign (c # cs) = (if c = CHR ''+'' \<or> c = CHR ''-'' then cs else c # cs)"

definition floatnumber :: "string \<Rightarrow> bool" where
  "floatnumber s =
     (case number s of
        None \<Rightarrow> False
      | Some [] \<Rightarrow> True
      | Some (c # r) \<Rightarrow> (c = CHR ''e'' \<or> c = CHR ''E'') \<and> digitpart (drop_sign r) = Some [])"

fun lower :: "char \<Rightarrow> char" where
  "lower c =
     (if c = CHR ''I'' then CHR ''i'' else if c = CHR ''N'' then CHR ''n''
      else if c = CHR ''F'' then CHR ''f'' else if c = CHR ''T'' then CHR ''t''
      else if c = CHR ''Y'' then CHR ''y'' else if c = CHR ''A'' then CHR ''a''
      else c)"

definition floatvalue :: "string \<Rightarrow> bool" where
  "floatvalue s =
     (let a = drop_sign s
      in floatnumber a \<or> map lower a \<in> set [''inf'', ''infinity'', ''nan''])"

text \<open>
  \<open>float(n)\<close> on an int rounds to the nearest double, ties to even, and raises
  OverflowError when the result would pass the largest double, \<open>2^1024 - 2^971\<close>: that
  is from \<open>2^1024 - 2^970\<close> on.
\<close>

definition int_fits_float :: "int \<Rightarrow> bool" where
  "int_fits_float n = (\<bar>n\<bar> < 2 ^ 1024 - 2 ^ 970)"

text \<open>
  \<open>float(valor)\<close>. The validator throws the converted number away, so the model returns
  only whether the call returns or what it raises.
\<close>

fun py_float :: "pyval \<Rightarrow> error + unit" where
  "py_float (PyStr s) =
     (if floatvalue (float_strip s) then Inr () else Inl (ValueError CouldNotConvert))"
| "py_float (PyFloat w) = Inr ()"
| "py_float (PyInt n) = (if int_fits_float n then Inr () else Inl OverflowError)"
| "py_float (PyBool b) = Inr ()"
| "py_float (PyComplex re im) = Inl TypeError"
| "py_float PyNone = Inl TypeError"
| "py_float (PyObj k) = Inl TypeError"
| "py_float (PyList a b rest) = Inl TypeError"

section \<open>The table\<close>

text \<open>
  The dtypes modelled, with \<open>str(dtype)\<close> and \<open>pd.api.types.is_numeric_dtype\<close> on them:
  the boolean, integer, floating and complex dtypes are numeric, \<open>object\<close> is not.
\<close>

datatype dtype = DBool | DInt64 | DFloat64 | DComplex128 | DObject

fun dtype_str :: "dtype \<Rightarrow> string" where
  "dtype_str DBool = ''bool''"
| "dtype_str DInt64 = ''int64''"
| "dtype_str DFloat64 = ''float64''"
| "dtype_str DComplex128 = ''complex128''"
| "dtype_str DObject = ''object''"

fun is_numeric_dtype :: "dtype \<Rightarrow> bool" where
  "is_numeric_dtype DObject = False"
| "is_numeric_dtype d = True"

text \<open>
  An index label is a scalar (the default index numbers the rows from 0) or, under a
  MultiIndex, a tuple of scalars.
\<close>

datatype label = Label pyval | MultiLabel "pyval list"

text \<open>
  \<open>format(idx, '<10')\<close>, which the f-string of source line 127 calls on a label: numbers
  and strings take a width; \<open>None\<close>, a tuple and a plain object have only
  \<open>object.__format__\<close>, which raises TypeError on a format spec that is not empty.
\<close>

fun format_width :: "label \<Rightarrow> error + unit" where
  "format_width (Label (PyInt n)) = Inr ()"
| "format_width (Label (PyBool b)) = Inr ()"
| "format_width (Label (PyFloat x)) = Inr ()"
| "format_width (Label (PyComplex re im)) = Inr ()"
| "format_width (Label (PyStr s)) = Inr ()"
| "format_width (Label PyNone) = Inl TypeError"
| "format_width (Label (PyObj k)) = Inl TypeError"
| "format_width (Label (PyList a b rest)) = Inl TypeError"
| "format_width (MultiLabel vs) = Inl TypeError"

text \<open>
  A Series is a dtype and the cells with their index labels, in order, as
  \<open>serie.items()\<close> yields them; labels may repeat and need not be sorted. A DataFrame is
  its columns in order, each under its name; pandas allows a name to occur more than once.
\<close>

record series =
  dtype :: dtype
  items :: "(label \<times> pyval) list"

type_synonym dataframe = "(string \<times> series) list"

definition columns :: "dataframe \<Rightarrow> string list" where
  "columns df = map fst df"

text \<open>
  \<open>df[columna]\<close> for a name that is present: the Series under that name, or, when several
  columns carry it, a DataFrame of them, on which \<open>.dtype\<close> (source line 37) raises
  AttributeError (a DataFrame has \<open>dtypes\<close>; the name is taken not to be \<open>dtype\<close>
  itself, which attribute access would find as a column).
\<close>

definition getitem :: "dataframe \<Rightarrow> string \<Rightarrow> error + series" where
  "getitem df columna =
     (case filter (\<lambda>p. fst p = columna) df of
        [p] \<Rightarrow> Inr (snd p)
      | _ \<Rightarrow> Inl AttributeError)"



section \<open>The validator\<close>

text \<open>The dictionary \<open>resultado\<close> of the source, with its eight keys.\<close>

record resultado =
  es_numerica :: bool
  tipo_dato :: string
  valores_no_numericos :: "pyval list"
  cantidad_no_numericos :: nat
  indices_no_numericos :: "label list"
  total_valores :: nat
  valores_nulos :: nat
  indices_nulos :: "label list"

text \<open>
  Console output. Each constructor is one \<open>print\<close> call of the source and carries the
  data that call formats; the layout of a line (widths, the cut of a long value after 27
  characters) is a function of that data and is not modelled. What is modelled is whether
  the formatting returns: see \<open>print_filas\<close>.
\<close>

datatype salida =
    EsNumerica string
  | SoloNumericos string
  | NoEsNumerica string
  | TipoDeDato string
  | TipoDeDatoActual string
  | TotalDeValores nat
  | ValoresNulos nat
  | NoNumericosEncontrados nat
  | Regla70
  | DetalleNulos
  | IndicesConNulos "label list"
  | DetalleNoNumericos
  | Cabecera
  | Guiones70
  | Fila label pyval
  | Regla60
  | Verificacion
  | Columna string
  | Resumen
  | ColumnasNumericas nat
  | ColumnasNoNumericas nat
  | Item string
  | ItemProblematicos string nat

text \<open>
  What a call can read and change: the DataFrame it is handed (by reference) and the
  console. Every function below takes the state and returns it with its result.
\<close>

record world =
  df :: "dataframe"
  stdout :: "salida list"

definition print :: "salida list \<Rightarrow> world \<Rightarrow> world" where
  "print ls w = w\<lparr>stdout := stdout w @ ls\<rparr>"

text \<open>Source lines 70-71: a string is stripped, and \<open>valor\<close> is rebound to the result.\<close>

fun limpiar :: "pyval \<Rightarrow> pyval" where
  "limpiar (PyStr s) = PyStr (strip s)"
| "limpiar v = v"

text \<open>
  The loop of source lines 62-77 over \<open>serie.items()\<close>, with the two lists it appends
  to. An exception of the test of line 64 is outside the \<open>try\<close>, and an exception of
  \<open>float\<close> other than ValueError and TypeError is not caught.
\<close>

fun for_items ::
  "(label \<times> pyval) list \<Rightarrow> pyval list \<Rightarrow> label list \<Rightarrow> error + pyval list \<times> label list" where
  "for_items [] valores indices = Inr (valores, indices)"
| "for_items ((idx, valor) # rest) valores indices =
     (case if_isnull valor of
        Inl e \<Rightarrow> Inl e
      | Inr nulo \<Rightarrow>
          if nulo then for_items rest valores indices
          else
            let valor = limpiar valor
            in case py_float valor of
                 Inr u \<Rightarrow> for_items rest valores indices
               | Inl (ValueError m) \<Rightarrow> for_items rest (valores @ [valor]) (indices @ [idx])
               | Inl TypeError \<Rightarrow> for_items rest (valores @ [valor]) (indices @ [idx])
               | Inl e \<Rightarrow> Inl e)"

text \<open>The block of source lines 94-99 and 108-113.\<close>

definition print_nulos :: "resultado \<Rightarrow> world \<Rightarrow> world" where
  "print_nulos resultado w =
     (if valores_nulos resultado > 0
      then print [Regla70, DetalleNulos, Regla70, IndicesConNulos (indices_nulos resultado),
                  Regla70] w
      else w)"

text \<open>
  The loop of source lines 123-127 over \<open>zip(indices_no_numericos, valores_no_numericos)\<close>.
  The value is printed through \<open>str\<close> and the name of its type, which take a width; the
  label is formatted as it is.
\<close>

fun print_filas :: "(label \<times> pyval) list \<Rightarrow> world \<Rightarrow> (error + unit) \<times> world" where
  "print_filas [] w = (Inr (), w)"
| "print_filas ((idx, val) # rest) w =
     (case format_width idx of
        Inl e \<Rightarrow> (Inl e, w)
      | Inr u \<Rightarrow> print_filas rest (print [Fila idx val] w))"

text \<open>Source lines 86-129, under \<open>if verbose\<close>.\<close>

definition print_detalle :: "string \<Rightarrow> resultado \<Rightarrow> world \<Rightarrow> (error + unit) \<times> world" where
  "print_detalle columna resultado w =
     (if es_numerica resultado then
        (Inr (),
         print_nulos resultado
           (print [SoloNumericos columna, TipoDeDatoActual (tipo_dato resultado),
                   TotalDeValores (total_valores resultado),
                   ValoresNulos (valores_nulos resultado)] w))
      else
        let w = print [NoEsNumerica columna, TipoDeDato (tipo_dato resultado),
                       TotalDeValores (total_valores resultado),
                       ValoresNulos (valores_nulos resultado),
                       NoNumericosEncontrados (cantidad_no_numericos resultado)] w;
            w = print_nulos resultado w;
            w = print [Regla70, DetalleNoNumericos, Regla70, Cabecera, Guiones70] w
        in case print_filas (zip (indices_no_numericos resultado)
                                 (valores_no_numericos resultado)) w of
             (Inl e, w) \<Rightarrow> (Inl e, w)
           | (Inr u, w) \<Rightarrow> (Inr (), print [Regla70] w))"

text \<open>\<open>verificar_columna_numerica(df, columna, verbose)\<close>, source lines 5-131.\<close>

definition verificar_columna_numerica ::
  "string \<Rightarrow> bool \<Rightarrow> world \<Rightarrow> (error + resultado) \<times> world" where
  "verificar_columna_numerica columna verbose w =
     (if columna \<notin> set (columns (df w))
      then (Inl (ValueError (NoExiste columna (columns (df w)))), w)
      else
        case getitem (df w) columna of
          Inl e \<Rightarrow> (Inl e, w)
        | Inr serie \<Rightarrow>
            let resultado =
                  \<lparr>es_numerica = False,
                   tipo_dato = dtype_str (dtype serie),
                   valores_no_numericos = [],
                   cantidad_no_numericos = 0,
                   indices_no_numericos = [],
                   total_valores = length (items serie),
                   valores_nulos = length (filter (\<lambda>(idx, valor). isnull valor) (items serie)),
                   indices_nulos =
                     map fst (filter (\<lambda>(idx, valor). isnull valor) (items serie))\<rparr>
            in
              if is_numeric_dtype (dtype serie) then
                let resultado = resultado\<lparr>es_numerica := True\<rparr>;
                    w = (if verbose
                         then print [EsNumerica columna, TipoDeDato (tipo_dato resultado),
                                     TotalDeValores (total_valores resultado),
                                     ValoresNulos (valores_nulos resultado)] w
                         else w)
                in (Inr resultado, w)
              else
                (case for_items (items serie) [] [] of
                   Inl e \<Rightarrow> (Inl e, w)
                 | Inr (valores, indices) \<Rightarrow>
                     let resultado =
                           resultado\<lparr>valores_no_numericos := valores,
                                     cantidad_no_numericos := length valores,
                                     indices_no_numericos := indices,
                                     es_numerica := (length valores = 0)\<rparr>
                     in if verbose then
                          (case print_detalle columna resultado w of
                             (Inl e, w) \<Rightarrow> (Inl e, w)
                           | (Inr u, w) \<Rightarrow> (Inr resultado, w))
                        else (Inr resultado, w)))"

section \<open>The validator of several columns\<close>

text \<open>
  The dictionary \<open>resultados\<close> keeps its keys in the order of their first assignment;
  assigning to a key it has replaces the entry where it stands.
\<close>

fun setitem :: "('k \<times> 'v) list \<Rightarrow> 'k \<Rightarrow> 'v \<Rightarrow> ('k \<times> 'v) list" where
  "setitem [] k v = [(k, v)]"
| "setitem ((k', v') # kvs) k v =
     (if k' = k then (k, v) # kvs else (k', v') # setitem kvs k v)"

text \<open>The loop of source lines 199-204; an exception of the validator leaves it.\<close>

fun for_columnas ::
  "string list \<Rightarrow> bool \<Rightarrow> (string \<times> resultado) list \<Rightarrow> world \<Rightarrow>
     (error + (string \<times> resultado) list) \<times> world" where
  "for_columnas [] verbose resultados w = (Inr resultados, w)"
| "for_columnas (col # cols) verbose resultados w =
     (let w = (if verbose then print [Columna col] w else w)
      in case verificar_columna_numerica col verbose w of
           (Inl e, w) \<Rightarrow> (Inl e, w)
         | (Inr resultado, w) \<Rightarrow>
             for_columnas cols verbose (setitem resultados col resultado) w)"

text \<open>Source lines 207-223, under \<open>if verbose\<close>.\<close>

definition print_resumen :: "(string \<times> resultado) list \<Rightarrow> world \<Rightarrow> world" where
  "print_resumen resultados w =
     (let w = print [Regla60, Resumen, Regla60] w;
          numericas = map fst (filter (\<lambda>(col, res). es_numerica res) resultados);
          no_numericas = map fst (filter (\<lambda>(col, res). \<not> es_numerica res) resultados);
          w = print [ColumnasNumericas (length numericas)] w;
          w = print (map Item numericas) w
      in if no_numericas \<noteq> [] then
           let w = print [ColumnasNoNumericas (length no_numericas)] w
           in print (map (\<lambda>col. ItemProblematicos col
                            (case map_of resultados col of
                               Some res \<Rightarrow> cantidad_no_numericos res
                             | None \<Rightarrow> 0))
                         no_numericas) w
         else w)"

text \<open>
  \<open>verificar_multiples_columnas(df, columnas, verbose)\<close>: the source defines it twice with
  the same body, and the second definition (lines 185-225) is the one in force.
  \<open>columnas\<close> is None by default.
\<close>

definition verificar_multiples_columnas ::
  "string list option \<Rightarrow> bool \<Rightarrow> world \<Rightarrow>
     (error + (string \<times> resultado) list) \<times> world" where
  "verificar_multiples_columnas columnas verbose w =
     (let columnas = (case columnas of None \<Rightarrow> columns (df w) | Some cs \<Rightarrow> cs);
          w = (if verbose then print [Regla60, Verificacion, Regla60] w else w)
      in case for_columnas columnas verbose [] w of
           (Inl e, w) \<Rightarrow> (Inl e, w)
         | (Inr resultados, w) \<Rightarrow>
             (Inr resultados, if verbose then print_resumen resultados w else w))"

section \<open>Notions the properties are stated with\<close>

text \<open>
  A cell parses as a floating-point number when \<open>float\<close> returns on it, a string being
  stripped first, as in source lines 70-74.
\<close>

definition parses :: "pyval \<Rightarrow> bool" where
  "parses v = (py_float (limpiar v) = Inr ())"

text \<open>The parse fails with an exception the validator catches (source line 75).\<close>

definition caught :: "pyval \<Rightarrow> bool" where
  "caught v =
     (py_float (limpiar v) = Inl (ValueError CouldNotConvert) \<or>
      py_float (limpiar v) = Inl TypeError)"

text \<open>The parse fails with an exception the validator does not catch.\<close>

definition escapes :: "pyval \<Rightarrow> bool" where
  "escapes v = (py_float (limpiar v) = Inl OverflowError)"

text \<open>The cell holds a list.\<close>

definition is_list :: "pyval \<Rightarrow> bool" where
  "is_list v = (case v of PyList a b rest \<Rightarrow> True | _ \<Rightarrow> False)"

text \<open>The requested names in the order of their first occurrence.\<close>

definition first_occurrences :: "'a list \<Rightarrow> 'a list" where
  "first_occurrences xs = rev (remdups (rev xs))"

text \<open>The label can be printed in a row of the detail table (source line 127).\<close>

definition formats :: "label \<Rightarrow> bool" where
  "formats idx = (format_width idx = Inr ())"

text \<open>
  The dictionary that source lines 35-44 and 80-83 build for a scanned column, from the
  two lists of the loop.
\<close>

definition informe :: "series \<Rightarrow> pyval list \<Rightarrow> label list \<Rightarrow> resultado" where
  "informe s valores indices =
     \<lparr>es_numerica = (valores = []),
      tipo_dato = dtype_str (dtype s),
      valores_no_numericos = valores,
      cantidad_no_numericos = length valores,
      indices_no_numericos = indices,
      total_valores = length (items s),
      valores_nulos = length (filter (\<lambda>(idx, valor). isnull valor) (items s)),
      indices_nulos = map fst (filter (\<lambda>(idx, valor). isnull valor) (items s))\<rparr>"

subsection \<open>Tables to run the validator on\<close>

abbreviation fila :: "int \<Rightarrow> label" where
  "fila n \<equiv> Label (PyInt n)"

text \<open>
  Three object columns (strings with a null; a padded number; a padded word) and a
  float64 column holding 1.5 and a NaN, under the default index; and the reports of the
  validator on them.
\<close>

definition serie_a :: series where
  "serie_a =
     \<lparr>dtype = DObject,
      items = [(fila 0, PyStr ''1''), (fila 1, PyStr ''abc''), (fila 2, PyNone),
               (fila 3, PyStr ''3.5'')]\<rparr>"

definition serie_e :: series where
  "serie_e = \<lparr>dtype = DObject, items = [(fila 0, PyStr '' 42 '')]\<rparr>"

definition serie_s :: series where
  "serie_s = \<lparr>dtype = DObject, items = [(fila 0, PyStr '' abc '')]\<rparr>"

definition serie_c :: series where
  "serie_c =
     \<lparr>dtype = DFloat64,
      items = [(fila 0, PyFloat 0x3FF8000000000000), (fila 1, PyFloat 0x7FF8000000000000)]\<rparr>"

definition tabla :: world where
  "tabla =
     \<lparr>df = [(''a'', serie_a), (''e'', serie_e), (''s'', serie_s), (''c'', serie_c)],
      stdout = []\<rparr>"

definition informe_a :: resultado where
  "informe_a =
     \<lparr>es_numerica = False, tipo_dato = ''object'', valores_no_numericos = [PyStr ''abc''],
      cantidad_no_numericos = 1, indices_no_numericos = [fila 1], total_valores = 4,
      valores_nulos = 1, indices_nulos = [fila 2]\<rparr>"



definition informe_c :: resultado where
  "informe_c =
     \<lparr>es_numerica = True, tipo_dato = ''float64'', valores_no_numericos = [],
      cantidad_no_numericos = 0, indices_no_numericos = [], total_valores = 2,
      valores_nulos = 1, indices_nulos = [fila 1]\<rparr>"


text \<open>A complex128 column holding \<open>1+2j\<close>, and the report on it.\<close>

definition serie_z :: series where
  "serie_z =
     \<lparr>dtype = DComplex128,
      items = [(fila 0, PyComplex 0x3FF0000000000000 0x4000000000000000)]\<rparr>"

definition tabla_compleja :: world where
  "tabla_compleja = \<lparr>df = [(''z'', serie_z)], stdout = []\<rparr>"


text \<open>An object column holding the int \<open>2 ** 1024\<close>.\<close>

definition tabla_grande :: world where
  "tabla_grande =
     \<lparr>df = [(''g'', \<lparr>dtype = DObject, items = [(fila 0, PyInt (2 ^ 1024))]\<rparr>)],
      stdout = []\<rparr>"

text \<open>Two columns under one name, the first with a word and a null.\<close>

definition tabla_repetida :: world where
  "tabla_repetida =
     \<lparr>df = [(''a'', \<lparr>dtype = DObject, items = [(fila 0, PyStr ''abc''), (fila 1, PyNone)]\<rparr>),
            (''a'', \<lparr>dtype = DObject, items = [(fila 0, PyStr ''2''), (fila 1, PyStr ''3'')]\<rparr>)],
      stdout = []\<rparr>"

text \<open>A float64 column and an int64 column under one name.\<close>

definition serie_n :: series where
  "serie_n = \<lparr>dtype = DFloat64, items = [(fila 0, PyFloat 0x3FF8000000000000)]\<rparr>"

definition tabla_numerica_repetida :: world where
  "tabla_numerica_repetida =
     \<lparr>df = [(''a'', serie_n), (''a'', \<lparr>dtype = DInt64, items = [(fila 0, PyInt 7)]\<rparr>)],
      stdout = []\<rparr>"



text \<open>
  An object column holding the string \<open>x\<close> in a table under a MultiIndex, the label of
  the row being \<open>(2024, 'ene')\<close>; and the report on it.
\<close>

definition serie_m :: series where
  "serie_m =
     \<lparr>dtype = DObject, items = [(MultiLabel [PyInt 2024, PyStr ''ene''], PyStr ''x'')]\<rparr>"

definition tabla_multi :: world where
  "tabla_multi = \<lparr>df = [(''m'', serie_m)], stdout = []\<rparr>"

definition informe_m :: resultado where
  "informe_m =
     \<lparr>es_numerica = False, tipo_dato = ''object'', valores_no_numericos = [PyStr ''x''],
      cantidad_no_numericos = 1,
      indices_no_numericos = [MultiLabel [PyInt 2024, PyStr ''ene'']], total_valores = 1,
      valores_nulos = 0, indices_nulos = []\<rparr>"

section \<open>The console and the table\<close>

lemma df_print: "df (print ls w) = df w"
  by (simp add: print_def)

lemma df_print_nulos: "df (print_nulos r w) = df w"
  by (simp add: print_nulos_def df_print)

lemma df_print_filas: "df (snd (print_filas ps w)) = df w"
proof (induction ps w rule: print_filas.induct)
  case (1 w)
  show ?case by simp
next
  case (2 idx val rest w)
  then show ?case by (cases "format_width idx") (simp_all add: df_print)
qed

lemma format_width_cases: "format_width idx = Inr () \<or> format_width idx = Inl TypeError"
  by (induction idx rule: format_width.induct) simp_all

lemma fst_print_filas:
  "fst (print_filas ps w) = (if list_all formats (map fst ps) then Inr () else Inl TypeError)"
proof (induction ps w rule: print_filas.induct)
  case (1 w)
  show ?case by simp
next
  case (2 idx val rest w)
  from format_width_cases[of idx] show ?case
  proof
    assume "format_width idx = Inr ()"
    with 2 show ?thesis by (simp add: formats_def)
  next
    assume "format_width idx = Inl TypeError"
    then show ?thesis by (simp add: formats_def)
  qed
qed

lemma df_print_detalle: "df (snd (print_detalle c r w)) = df w"
proof (cases "es_numerica r")
  case True
  then show ?thesis by (simp add: print_detalle_def df_print df_print_nulos)
next
  case False
  let ?w = "print [Regla70, DetalleNoNumericos, Regla70, Cabecera, Guiones70]
              (print_nulos r
                 (print [NoEsNumerica c, TipoDeDato (tipo_dato r),
                         TotalDeValores (total_valores r), ValoresNulos (valores_nulos r),
                         NoNumericosEncontrados (cantidad_no_numericos r)] w))"
  have "df (snd (print_filas (zip (indices_no_numericos r) (valores_no_numericos r)) ?w)) = df w"
    by (simp add: df_print_filas df_print df_print_nulos)
  with False show ?thesis
    by (cases "print_filas (zip (indices_no_numericos r) (valores_no_numericos r)) ?w")
       (auto simp: print_detalle_def Let_def df_print split: sum.splits)
qed

lemma fst_print_detalle:
  "fst (print_detalle c r w) =
     (if es_numerica r \<or>
         list_all formats (map fst (zip (indices_no_numericos r) (valores_no_numericos r)))
      then Inr () else Inl TypeError)"
proof (cases "es_numerica r")
  case True
  then show ?thesis by (simp add: print_detalle_def)
next
  case False
  let ?w = "print [Regla70, DetalleNoNumericos, Regla70, Cabecera, Guiones70]
              (print_nulos r
                 (print [NoEsNumerica c, TipoDeDato (tipo_dato r),
                         TotalDeValores (total_valores r), ValoresNulos (valores_nulos r),
                         NoNumericosEncontrados (cantidad_no_numericos r)] w))"
  note f = fst_print_filas[of "zip (indices_no_numericos r) (valores_no_numericos r)" ?w]
  with False show ?thesis
    by (cases "print_filas (zip (indices_no_numericos r) (valores_no_numericos r)) ?w")
       (auto simp: print_detalle_def Let_def split: sum.splits)
qed

lemma df_print_resumen: "df (print_resumen rs w) = df w"
  by (simp add: print_resumen_def Let_def df_print)

section \<open>The loop over the cells\<close>

lemma py_float_cases:
  "py_float v = Inr () \<or> py_float v = Inl (ValueError CouldNotConvert) \<or>
   py_float v = Inl TypeError \<or> py_float v = Inl OverflowError"
  by (cases v) auto

lemma if_isnull_eq:
  "if_isnull v = (if is_list v then Inl (ValueError AmbiguousTruth) else Inr (isnull v))"
  by (cases v) (simp_all add: is_list_def)

text \<open>One turn of the loop, by what becomes of the cell.\<close>

lemma for_items_step:
  "for_items ((idx, valor) # rest) vs js =
     (if is_list valor then Inl (ValueError AmbiguousTruth)
      else if isnull valor then for_items rest vs js
      else if parses valor then for_items rest vs js
      else if caught valor then for_items rest (vs @ [limpiar valor]) (js @ [idx])
      else Inl OverflowError)"
  using py_float_cases[of "limpiar valor"]
  by (auto simp: if_isnull_eq parses_def caught_def Let_def)

lemma for_items_Inr:
  "for_items xs vs js = Inr (vs', js') \<Longrightarrow>
     vs' = vs @ map (\<lambda>(i, v). limpiar v) (filter (\<lambda>(i, v). \<not> isnull v \<and> caught v) xs) \<and>
     js' = js @ map fst (filter (\<lambda>(i, v). \<not> isnull v \<and> caught v) xs)"
proof (induction xs arbitrary: vs js)
  case Nil
  then show ?case by simp
next
  case (Cons x xs)
  obtain idx valor where x: "x = (idx, valor)" by (cases x)
  have pc: "parses valor \<Longrightarrow> \<not> caught valor" by (auto simp: parses_def caught_def)
  note p = Cons.prems[unfolded x for_items_step]
  consider (lst) "is_list valor" | (nul) "\<not> is_list valor" "isnull valor"
    | (par) "\<not> is_list valor" "\<not> isnull valor" "parses valor"
    | (cau) "\<not> is_list valor" "\<not> isnull valor" "\<not> parses valor" "caught valor"
    | (esc) "\<not> is_list valor" "\<not> isnull valor" "\<not> parses valor" "\<not> caught valor"
    by blast
  then show ?case
  proof cases
    case lst
    with p show ?thesis by simp
  next
    case nul
    with p have "for_items xs vs js = Inr (vs', js')" by simp
    from Cons.IH[OF this] nul show ?thesis unfolding x by simp
  next
    case par
    with p have "for_items xs vs js = Inr (vs', js')" by simp
    from Cons.IH[OF this] par pc show ?thesis unfolding x by simp
  next
    case cau
    with p have "for_items xs (vs @ [limpiar valor]) (js @ [idx]) = Inr (vs', js')" by simp
    from Cons.IH[OF this] cau show ?thesis unfolding x by simp
  next
    case esc
    with p show ?thesis by simp
  qed
qed



lemma for_items_cells:
  "for_items xs vs js = Inr r \<Longrightarrow> (i, v) \<in> set xs \<Longrightarrow>
     \<not> is_list v \<and> (\<not> isnull v \<longrightarrow> \<not> escapes v)"
proof (induction xs arbitrary: vs js)
  case Nil
  then show ?case by simp
next
  case (Cons x xs)
  obtain idx valor where x: "x = (idx, valor)" by (cases x)
  have "parses valor \<Longrightarrow> \<not> escapes valor" "caught valor \<Longrightarrow> \<not> escapes valor"
    by (auto simp: parses_def caught_def escapes_def)
  with Cons.prems Cons.IH show ?case
    unfolding x for_items_step by (auto split: if_splits)
qed

section \<open>What the validator returns, case by case\<close>

lemma length_filter_name: "length (filter (\<lambda>p. fst p = c) d) = count_list (map fst d) c"
  by (induction d) auto

lemma getitem_Inr_iff: "(\<exists>s. getitem d c = Inr s) \<longleftrightarrow> count_list (columns d) c = 1"
proof -
  have "count_list (columns d) c = length (filter (\<lambda>p. fst p = c) d)"
    by (simp add: columns_def length_filter_name)
  then show ?thesis
    by (cases "filter (\<lambda>p. fst p = c) d" rule: list.exhaust; cases "tl (filter (\<lambda>p. fst p = c) d)")
       (auto simp: getitem_def split: list.splits)
qed

lemma getitem_Inl: "getitem d c = Inl e \<Longrightarrow> e = AttributeError"
  by (auto simp: getitem_def split: list.splits)

lemma getitem_member: "getitem d c = Inr s \<Longrightarrow> c \<in> set (columns d)"
proof -
  assume "getitem d c = Inr s"
  then have "count_list (columns d) c = 1" using getitem_Inr_iff by blast
  then have "count_list (columns d) c \<noteq> 0" by simp
  then show ?thesis by (simp add: count_list_0_iff)
qed

lemma getitem_in_df: "getitem d c = Inr s \<Longrightarrow> (c, s) \<in> set d"
proof -
  assume a: "getitem d c = Inr s"
  then obtain p where p: "filter (\<lambda>p. fst p = c) d = [p]" "snd p = s"
    by (auto simp: getitem_def split: list.splits)
  then have "p \<in> set (filter (\<lambda>p. fst p = c) d)" by simp
  then have "p \<in> set d" "fst p = c" by auto
  with p show ?thesis by (cases p) auto
qed

lemma verificar_absent:
  "c \<notin> set (columns (df w)) \<Longrightarrow>
     verificar_columna_numerica c verbose w = (Inl (ValueError (NoExiste c (columns (df w)))), w)"
  by (simp add: verificar_columna_numerica_def)

lemma verificar_repeated:
  "c \<in> set (columns (df w)) \<Longrightarrow> getitem (df w) c = Inl e \<Longrightarrow>
     verificar_columna_numerica c verbose w = (Inl AttributeError, w)"
  using getitem_Inl by (fastforce simp: verificar_columna_numerica_def)

lemma verificar_numeric:
  assumes "getitem (df w) c = Inr s" and "is_numeric_dtype (dtype s)"
  shows "fst (verificar_columna_numerica c verbose w) =
           Inr \<lparr>es_numerica = True,
                tipo_dato = dtype_str (dtype s),
                valores_no_numericos = [],
                cantidad_no_numericos = 0,
                indices_no_numericos = [],
                total_valores = length (items s),
                valores_nulos = length (filter (\<lambda>(idx, valor). isnull valor) (items s)),
                indices_nulos = map fst (filter (\<lambda>(idx, valor). isnull valor) (items s))\<rparr>"
  using assms getitem_member[OF assms(1)]
  by (simp add: verificar_columna_numerica_def Let_def)

lemma verificar_scanned:
  assumes "getitem (df w) c = Inr s" and "\<not> is_numeric_dtype (dtype s)"
  shows "fst (verificar_columna_numerica c verbose w) =
           (case for_items (items s) [] [] of
              Inl e \<Rightarrow> Inl e
            | Inr (valores, indices) \<Rightarrow>
                if verbose \<and> \<not> list_all formats indices then Inl TypeError
                else Inr (informe s valores indices))"
proof (cases "for_items (items s) [] []")
  case (Inl e)
  with assms getitem_member[OF assms(1)] show ?thesis
    by (simp add: verificar_columna_numerica_def Let_def)
next
  case (Inr p)
  obtain vs js where p: "p = (vs, js)" by (cases p)
  from for_items_Inr[OF Inr[unfolded p]] have len: "length js = length vs" by simp
  let ?r = "informe s vs js"
  have r: "\<lparr>es_numerica = False, tipo_dato = dtype_str (dtype s), valores_no_numericos = [],
            cantidad_no_numericos = 0, indices_no_numericos = [],
            total_valores = length (items s),
            valores_nulos = length (filter (\<lambda>(idx, valor). isnull valor) (items s)),
            indices_nulos = map fst (filter (\<lambda>(idx, valor). isnull valor) (items s))\<rparr>
          \<lparr>valores_no_numericos := vs, cantidad_no_numericos := length vs,
           indices_no_numericos := js, es_numerica := (length vs = 0)\<rparr> = ?r"
    by (simp add: informe_def)
  have d: "fst (print_detalle c ?r w) = (if list_all formats js then Inr () else Inl TypeError)"
  proof (cases "vs = []")
    case True
    with len show ?thesis by (simp add: fst_print_detalle informe_def)
  next
    case False
    with len show ?thesis by (simp add: fst_print_detalle informe_def)
  qed
  show ?thesis
  proof (cases verbose)
    case False
    with assms getitem_member[OF assms(1)] Inr p r show ?thesis
      by (simp add: verificar_columna_numerica_def Let_def)
  next
    case True
    obtain x w' where pd: "print_detalle c ?r w = (x, w')" by (cases "print_detalle c ?r w")
    with d have x: "x = (if list_all formats js then Inr () else Inl TypeError)" by simp
    from True assms getitem_member[OF assms(1)] Inr p r pd x show ?thesis
      by (simp add: verificar_columna_numerica_def Let_def)
  qed
qed

lemma df_verificar: "df (snd (verificar_columna_numerica c verbose w)) = df w"
proof (cases "c \<in> set (columns (df w))")
  case False
  then show ?thesis by (simp add: verificar_absent)
next
  case True
  show ?thesis
  proof (cases "getitem (df w) c")
    case (Inl e)
    with True show ?thesis by (simp add: verificar_repeated)
  next
    case (Inr s)
    show ?thesis
    proof (cases "for_items (items s) [] []")
      case (Inl e)
      with True Inr show ?thesis
        by (simp add: verificar_columna_numerica_def Let_def df_print)
    next
      case (Inr p)
      obtain vs js where p: "p = (vs, js)" by (cases p)
      have "df (snd (print_detalle c r w)) = df w" for r by (rule df_print_detalle)
      then have "df w' = df w" if "print_detalle c r w = (x, w')" for r x w'
        using that by (metis snd_conv)
      with True \<open>getitem (df w) c = Inr s\<close> Inr p show ?thesis
        by (auto simp: verificar_columna_numerica_def Let_def df_print
            split: sum.splits prod.splits)
    qed
  qed
qed

lemma verificar_quiet: "snd (verificar_columna_numerica c False w) = w"
  by (auto simp: verificar_columna_numerica_def Let_def split: sum.splits prod.splits)

lemma verificar_Inr_getitem:
  "fst (verificar_columna_numerica c verbose w) = Inr r \<Longrightarrow> \<exists>s. getitem (df w) c = Inr s"
  by (cases "c \<in> set (columns (df w))"; cases "getitem (df w) c")
     (auto simp: verificar_absent verificar_repeated)

text \<open>The result is a function of the table, the name and \<open>verbose\<close>.\<close>

lemma fst_verificar_df:
  assumes "df w = df w'"
  shows "fst (verificar_columna_numerica c verbose w) =
         fst (verificar_columna_numerica c verbose w')"
proof (cases "c \<in> set (columns (df w))")
  case False
  with assms show ?thesis by (simp add: verificar_absent)
next
  case True
  show ?thesis
  proof (cases "getitem (df w) c")
    case (Inl e)
    with True assms show ?thesis by (simp add: verificar_repeated)
  next
    case (Inr s)
    then have g': "getitem (df w') c = Inr s" using assms by simp
    show ?thesis
    proof (cases "is_numeric_dtype (dtype s)")
      case True
      show ?thesis
        unfolding verificar_numeric[OF Inr True] verificar_numeric[OF g' True] ..
    next
      case False
      show ?thesis
        unfolding verificar_scanned[OF Inr False] verificar_scanned[OF g' False] ..
    qed
  qed
qed

text \<open>What \<open>verbose\<close> does to the result.\<close>

lemma verificar_verbose:
  "fst (verificar_columna_numerica c True w) =
     (case fst (verificar_columna_numerica c False w) of
        Inl e \<Rightarrow> Inl e
      | Inr r \<Rightarrow> if list_all formats (indices_no_numericos r) then Inr r else Inl TypeError)"
proof (cases "c \<in> set (columns (df w))")
  case False
  then show ?thesis by (simp add: verificar_absent)
next
  case True
  show ?thesis
  proof (cases "getitem (df w) c")
    case (Inl e)
    with True show ?thesis by (simp add: verificar_repeated)
  next
    case (Inr s)
    show ?thesis
    proof (cases "is_numeric_dtype (dtype s)")
      case True
      show ?thesis unfolding verificar_numeric[OF Inr True] by simp
    next
      case False
      show ?thesis
      proof (cases "for_items (items s) [] []")
        case (Inl e)
        then show ?thesis unfolding verificar_scanned[OF Inr False] by simp
      next
        case p: (Inr p)
        obtain vs js where "p = (vs, js)" by (cases p)
        moreover have "indices_no_numericos (informe s vs js) = js" by (simp add: informe_def)
        ultimately show ?thesis unfolding verificar_scanned[OF Inr False] p by simp
      qed
    qed
  qed
qed

lemma verificar_returned_quiet:
  assumes "fst (verificar_columna_numerica c verbose w) = Inr r"
  shows "fst (verificar_columna_numerica c False w) = Inr r"
proof (cases verbose)
  case False
  with assms show ?thesis by simp
next
  case True
  with assms verificar_verbose[of c w] show ?thesis
    by (auto split: sum.splits if_splits)
qed

lemma isnull_limpiar: "isnull (limpiar v) = isnull v"
  by (cases v) auto


lemma parse_outcome: "parses v \<or> caught v \<or> escapes v"
  using py_float_cases[of "limpiar v"] by (auto simp: parses_def caught_def escapes_def)

lemma parses_not_caught: "parses v \<Longrightarrow> \<not> caught v"
  by (auto simp: parses_def caught_def)


lemma for_items_no_escape:
  assumes "for_items xs vs js = Inr r" and "(i, v) \<in> set xs" and "\<not> isnull v"
  shows "\<not> escapes v"
  using for_items_cells[OF assms(1) assms(2)] assms(3) by simp

lemma caught_not_parses: "caught v \<Longrightarrow> \<not> parses v"
  by (auto simp: parses_def caught_def)

lemma not_caught_parses: "\<not> caught v \<Longrightarrow> \<not> escapes v \<Longrightarrow> parses v"
  using parse_outcome by blast

text \<open>What a returned report holds.\<close>

lemma scanned_report:
  assumes g: "getitem (df w) c = Inr s" and n: "\<not> is_numeric_dtype (dtype s)"
    and r: "fst (verificar_columna_numerica c verbose w) = Inr r"
  shows "valores_no_numericos r =
           map (\<lambda>(i, v). limpiar v) (filter (\<lambda>(i, v). \<not> isnull v \<and> \<not> parses v) (items s))"
    and "indices_no_numericos r =
           map fst (filter (\<lambda>(i, v). \<not> isnull v \<and> \<not> parses v) (items s))"
    and "cantidad_no_numericos r = length (valores_no_numericos r)"
    and "es_numerica r = (valores_no_numericos r = [])"
    and "valores_nulos r = length (filter (\<lambda>(idx, valor). isnull valor) (items s))"
    and "indices_nulos r = map fst (filter (\<lambda>(idx, valor). isnull valor) (items s))"
proof -
  from verificar_scanned[OF g n, of False] verificar_returned_quiet[OF r]
  obtain vs js where f: "for_items (items s) [] [] = Inr (vs, js)" and r': "r = informe s vs js"
    by (auto split: sum.splits prod.splits)
  have same: "filter (\<lambda>(i, v). \<not> isnull v \<and> caught v) (items s) =
              filter (\<lambda>(i, v). \<not> isnull v \<and> \<not> parses v) (items s)"
  proof (rule filter_cong[OF refl])
    fix p assume p: "p \<in> set (items s)"
    obtain i v where iv: "p = (i, v)" by (cases p)
    show "(case p of (i, v) \<Rightarrow> \<not> isnull v \<and> caught v) =
          (case p of (i, v) \<Rightarrow> \<not> isnull v \<and> \<not> parses v)"
      using for_items_no_escape[OF f, of i v] p iv caught_not_parses[of v] not_caught_parses[of v]
      by auto
  qed
  from for_items_Inr[OF f] same r'
  show "valores_no_numericos r =
           map (\<lambda>(i, v). limpiar v) (filter (\<lambda>(i, v). \<not> isnull v \<and> \<not> parses v) (items s))"
    and "indices_no_numericos r =
           map fst (filter (\<lambda>(i, v). \<not> isnull v \<and> \<not> parses v) (items s))"
    by (simp_all add: informe_def)
  from r' show "cantidad_no_numericos r = length (valores_no_numericos r)"
    and "es_numerica r = (valores_no_numericos r = [])"
    and "valores_nulos r = length (filter (\<lambda>(idx, valor). isnull valor) (items s))"
    and "indices_nulos r = map fst (filter (\<lambda>(idx, valor). isnull valor) (items s))"
    by (simp_all add: informe_def)
qed

lemma numeric_report:
  assumes g: "getitem (df w) c = Inr s" and n: "is_numeric_dtype (dtype s)"
    and r: "fst (verificar_columna_numerica c verbose w) = Inr r"
  shows "valores_no_numericos r = []" and "indices_no_numericos r = []"
    and "cantidad_no_numericos r = 0" and "es_numerica r"
    and "valores_nulos r = length (filter (\<lambda>(idx, valor). isnull valor) (items s))"
    and "indices_nulos r = map fst (filter (\<lambda>(idx, valor). isnull valor) (items s))"
  using verificar_numeric[OF g n, of verbose] r by auto

lemma zip_map_same: "zip (map f xs) (map g xs) = map (\<lambda>x. (f x, g x)) xs"
  by (induction xs) auto

lemma zip_scanned:
  "zip (map fst ps) (map (\<lambda>(i, v). limpiar v) ps) = map (\<lambda>(i, v). (i, limpiar v)) ps"
  by (simp add: zip_map_same case_prod_unfold)




section \<open>The loop over the requested columns\<close>

lemma df_for_columnas: "df (snd (for_columnas cols verbose acc w)) = df w"
proof (induction cols arbitrary: acc w)
  case Nil
  show ?case by simp
next
  case (Cons col cols)
  let ?w = "if verbose then print [Columna col] w else w"
  have d: "df ?w = df w" by (simp add: df_print)
  show ?case
  proof (cases "verificar_columna_numerica col verbose ?w")
    case (Pair res w')
    then have w': "df w' = df w" using df_verificar[of col verbose ?w] d by simp
    show ?thesis
    proof (cases res)
      case (Inl e)
      with Pair w' show ?thesis by (simp add: Let_def)
    next
      case (Inr r)
      with Pair w' Cons.IH[of "setitem acc col r" w'] show ?thesis by (simp add: Let_def)
    qed
  qed
qed

lemma for_columnas_quiet: "snd (for_columnas cols False acc w) = w"
proof (induction cols arbitrary: acc)
  case Nil
  show ?case by simp
next
  case (Cons col cols)
  show ?case
  proof (cases "verificar_columna_numerica col False w")
    case (Pair res w')
    then have w': "w' = w" using verificar_quiet[of col w] by simp
    show ?thesis
    proof (cases res)
      case (Inl e)
      with Pair w' show ?thesis by simp
    next
      case (Inr r)
      with Pair w' Cons.IH[of "setitem acc col r"] show ?thesis by simp
    qed
  qed
qed

text \<open>The loop in terms of the results of the single validator on the table as it stands.\<close>

lemma for_columnas_step:
  "fst (for_columnas (col # cols) verbose acc w) =
     (case fst (verificar_columna_numerica col verbose w) of
        Inl e \<Rightarrow> Inl e
      | Inr r \<Rightarrow>
          fst (for_columnas cols verbose (setitem acc col r)
                 (snd (verificar_columna_numerica col verbose
                         (if verbose then print [Columna col] w else w)))))"
proof -
  let ?w = "if verbose then print [Columna col] w else w"
  have d: "df w = df ?w" by (simp add: df_print)
  have "fst (verificar_columna_numerica col verbose w) =
        fst (verificar_columna_numerica col verbose ?w)"
    using d by (rule fst_verificar_df)
  then show ?thesis
    by (cases "verificar_columna_numerica col verbose ?w")
       (auto simp: Let_def split: sum.splits)
qed

lemma for_columnas_df:
  "df w = df w' \<Longrightarrow>
     fst (for_columnas cols verbose acc w) = fst (for_columnas cols verbose acc w')"
proof (induction cols arbitrary: acc w w')
  case Nil
  show ?case by simp
next
  case (Cons col cols)
  let ?v = "snd (verificar_columna_numerica col verbose
                   (if verbose then print [Columna col] w else w))"
  let ?v' = "snd (verificar_columna_numerica col verbose
                   (if verbose then print [Columna col] w' else w'))"
  have "df ?v = df ?v'"
    using Cons.prems by (simp add: df_verificar df_print)
  then have ih: "fst (for_columnas cols verbose acc' ?v) = fst (for_columnas cols verbose acc' ?v')"
    for acc' by (rule Cons.IH)
  have eq: "fst (verificar_columna_numerica col verbose w) =
        fst (verificar_columna_numerica col verbose w')"
    using Cons.prems by (rule fst_verificar_df)
  show ?case
  proof (cases "fst (verificar_columna_numerica col verbose w')")
    case (Inl e)
    then show ?thesis by (simp only: for_columnas_step eq sum.case)
  next
    case (Inr r)
    then show ?thesis by (simp only: for_columnas_step eq sum.case ih)
  qed
qed

lemma for_columnas_all:
  assumes "\<forall>c \<in> set cols. fst (verificar_columna_numerica c verbose w) = Inr (f c)"
  shows "fst (for_columnas cols verbose acc w) =
           Inr (foldl (\<lambda>a c. setitem a c (f c)) acc cols)"
  using assms
proof (induction cols arbitrary: acc)
  case Nil
  show ?case by simp
next
  case (Cons col cols)
  let ?v = "snd (verificar_columna_numerica col verbose
                   (if verbose then print [Columna col] w else w))"
  have "df ?v = df w" by (simp add: df_verificar df_print)
  then have "fst (for_columnas cols verbose acc' ?v) = fst (for_columnas cols verbose acc' w)"
    for acc' by (rule for_columnas_df)
  with Cons show ?case unfolding for_columnas_step by simp
qed

lemma for_columnas_raises:
  assumes "\<forall>c \<in> set pre. \<exists>r. fst (verificar_columna_numerica c verbose w) = Inr r"
    and "fst (verificar_columna_numerica c verbose w) = Inl e"
  shows "fst (for_columnas (pre @ c # post) verbose acc w) = Inl e"
  using assms(1)
proof (induction pre arbitrary: acc)
  case Nil
  show ?case unfolding append_Nil for_columnas_step using assms(2) by simp
next
  case (Cons col pre)
  let ?v = "snd (verificar_columna_numerica col verbose
                   (if verbose then print [Columna col] w else w))"
  have "df ?v = df w" by (simp add: df_verificar df_print)
  then have "fst (for_columnas cols verbose acc' ?v) = fst (for_columnas cols verbose acc' w)"
    for acc' cols by (rule for_columnas_df)
  moreover from Cons.prems obtain r where "fst (verificar_columna_numerica col verbose w) = Inr r"
    by auto
  ultimately show ?case
    unfolding append_Cons for_columnas_step using Cons by simp
qed

lemma for_columnas_some_raises:
  assumes "c \<in> set cols" and "fst (verificar_columna_numerica c verbose w) = Inl e"
  shows "\<exists>e'. fst (for_columnas cols verbose acc w) = Inl e'"
proof -
  let ?bad = "\<lambda>c. \<exists>e. fst (verificar_columna_numerica c verbose w) = Inl e"
  from assms have "\<exists>c \<in> set cols. ?bad c" by blast
  then obtain pre b post where s: "cols = pre @ b # post" and b: "?bad b"
    and pre: "\<forall>c \<in> set pre. \<not> ?bad c"
    by (auto simp: split_list_first_prop_iff)
  from b obtain e' where e': "fst (verificar_columna_numerica b verbose w) = Inl e'" ..
  have "\<forall>c \<in> set pre. \<exists>r. fst (verificar_columna_numerica c verbose w) = Inr r"
  proof
    fix c assume "c \<in> set pre"
    with pre have "\<not> ?bad c" by blast
    then show "\<exists>r. fst (verificar_columna_numerica c verbose w) = Inr r"
      by (cases "fst (verificar_columna_numerica c verbose w)") auto
  qed
  from for_columnas_raises[OF this e'] s show ?thesis by blast
qed

lemma fst_multiples:
  "fst (verificar_multiples_columnas (Some cols) verbose w) =
     fst (for_columnas cols verbose [] w)"
proof -
  let ?w = "if verbose then print [Regla60, Verificacion, Regla60] w else w"
  have "df ?w = df w" by (simp add: df_print)
  then have "fst (for_columnas cols verbose [] ?w) = fst (for_columnas cols verbose [] w)"
    by (rule for_columnas_df)
  then show ?thesis
    by (cases "for_columnas cols verbose [] ?w")
       (auto simp: verificar_multiples_columnas_def Let_def split: sum.splits)
qed

lemma multiples_None:
  "verificar_multiples_columnas None verbose w =
     verificar_multiples_columnas (Some (columns (df w))) verbose w"
  by (simp add: verificar_multiples_columnas_def)

lemma df_multiples: "df (snd (verificar_multiples_columnas columnas verbose w)) = df w"
proof -
  let ?cols = "case columnas of None \<Rightarrow> columns (df w) | Some cs \<Rightarrow> cs"
  let ?w = "if verbose then print [Regla60, Verificacion, Regla60] w else w"
  have "df (snd (for_columnas ?cols verbose [] ?w)) = df w"
    by (simp add: df_for_columnas df_print)
  then show ?thesis
    by (cases "for_columnas ?cols verbose [] ?w")
       (auto simp: verificar_multiples_columnas_def Let_def df_print_resumen split: sum.splits)
qed

lemma multiples_quiet: "snd (verificar_multiples_columnas columnas False w) = w"
proof -
  let ?cols = "case columnas of None \<Rightarrow> columns (df w) | Some cs \<Rightarrow> cs"
  have "snd (for_columnas ?cols False [] w) = w" by (rule for_columnas_quiet)
  then show ?thesis
    by (cases "for_columnas ?cols False [] w")
       (auto simp: verificar_multiples_columnas_def Let_def split: sum.splits)
qed

section \<open>The dictionary of results\<close>

lemma remdups_snoc: "remdups (ys @ [c]) = filter (\<lambda>x. x \<noteq> c) (remdups ys) @ [c]"
  by (induction ys) auto

lemma first_occurrences_Nil: "first_occurrences [] = []"
  by (simp add: first_occurrences_def)

lemma first_occurrences_Cons:
  "first_occurrences (c # xs) = c # first_occurrences (filter (\<lambda>x. x \<noteq> c) xs)"
  by (simp add: first_occurrences_def remdups_snoc remdups_filter rev_filter)

lemma first_occurrences_distinct: "distinct xs \<Longrightarrow> first_occurrences xs = xs"
  by (simp add: first_occurrences_def distinct_remdups_id)

lemma set_first_occurrences: "set (first_occurrences xs) = set xs"
  by (simp add: first_occurrences_def)

lemma distinct_first_occurrences: "distinct (first_occurrences xs)"
  by (simp add: first_occurrences_def)

lemma setitem_keyed:
  "setitem (map (\<lambda>k. (k, f k)) ks) c (f c) =
     map (\<lambda>k. (k, f k)) (if c \<in> set ks then ks else ks @ [c])"
  by (induction ks) auto

lemma foldl_setitem:
  "foldl (\<lambda>a c. setitem a c (f c)) (map (\<lambda>k. (k, f k)) ks) cols =
     map (\<lambda>k. (k, f k)) (ks @ first_occurrences (filter (\<lambda>c. c \<notin> set ks) cols))"
proof (induction cols arbitrary: ks)
  case Nil
  show ?case by (simp add: first_occurrences_Nil)
next
  case (Cons c cols)
  show ?case
  proof (cases "c \<in> set ks")
    case True
    then show ?thesis using Cons[of ks] by (simp add: setitem_keyed)
  next
    case False
    have "filter (\<lambda>x. x \<noteq> c) (filter (\<lambda>c. c \<notin> set ks) cols) =
          filter (\<lambda>x. x \<notin> set (ks @ [c])) cols"
      by (auto intro: filter_cong)
    then show ?thesis
      using False Cons[of "ks @ [c]"]
      by (simp add: setitem_keyed first_occurrences_Cons)
  qed
qed

lemma foldl_setitem_empty:
  "foldl (\<lambda>a c. setitem a c (f c)) [] cols = map (\<lambda>k. (k, f k)) (first_occurrences cols)"
  using foldl_setitem[of f "[]" cols] by simp

section \<open>The validator on the tables above\<close>

lemmas run =
  verificar_columna_numerica_def columns_def getitem_def print_def print_nulos_def
  print_detalle_def strip_def isspace_def float_strip_def float_isspace_def floatvalue_def
  floatnumber_def is_digit_def is_nan_def int_fits_float_def Let_def

lemmas tablas =
  tabla_def serie_a_def serie_e_def serie_s_def serie_c_def tabla_compleja_def serie_z_def
  tabla_grande_def tabla_repetida_def tabla_multi_def serie_m_def




lemma getitem_c: "getitem (df tabla) ''c'' = Inr serie_c"
  by (simp add: tabla_def getitem_def)


lemma getitem_m: "getitem (df tabla_multi) ''m'' = Inr serie_m"
  by (simp add: tabla_multi_def getitem_def)

lemma columns_tabla: "columns (df tabla) = [''a'', ''e'', ''s'', ''c'']"
  by (simp add: tabla_def columns_def)

lemma tabla_a_quiet: "fst (verificar_columna_numerica ''a'' False tabla) = Inr informe_a"
  by (simp add: tablas informe_a_def run)

lemma tabla_a: "fst (verificar_columna_numerica ''a'' verbose tabla) = Inr informe_a"
  using tabla_a_quiet verificar_verbose[of "''a''" tabla]
  by (cases verbose) (simp_all add: informe_a_def formats_def)





lemma tabla_c: "fst (verificar_columna_numerica ''c'' verbose tabla) = Inr informe_c"
  using verificar_numeric[OF getitem_c, of verbose]
  by (simp add: serie_c_def informe_c_def is_nan_def)


lemma tabla_g: "fst (verificar_columna_numerica ''g'' verbose tabla_grande) = Inl OverflowError"
  by (cases verbose) (simp_all add: tablas run)

lemma tabla_rep:
  "fst (verificar_columna_numerica ''a'' verbose tabla_repetida) = Inl AttributeError"
  by (simp add: tablas run)

lemma tabla_nr:
  "fst (verificar_columna_numerica ''a'' verbose tabla_numerica_repetida) = Inl AttributeError"
  by (simp add: tabla_numerica_repetida_def run)


lemma tabla_m_quiet: "fst (verificar_columna_numerica ''m'' False tabla_multi) = Inr informe_m"
  by (simp add: tablas informe_m_def run)

lemma tabla_m_verbose: "fst (verificar_columna_numerica ''m'' True tabla_multi) = Inl TypeError"
  using tabla_m_quiet verificar_verbose[of "''m''" tabla_multi]
  by (simp add: informe_m_def formats_def)





section \<open>With and without \<open>verbose\<close>\<close>

lemma for_columnas_returned_quiet:
  "fst (for_columnas cols True acc w) = Inr m \<Longrightarrow> fst (for_columnas cols False acc w) = Inr m"
proof (induction cols arbitrary: acc w)
  case Nil
  then show ?case by simp
next
  case (Cons col cols)
  let ?v = "snd (verificar_columna_numerica col True (print [Columna col] w))"
  let ?q = "snd (verificar_columna_numerica col False w)"
  from Cons.prems obtain r where r: "fst (verificar_columna_numerica col True w) = Inr r"
    and m: "fst (for_columnas cols True (setitem acc col r) ?v) = Inr m"
    unfolding for_columnas_step by (auto split: sum.splits)
  from verificar_returned_quiet[OF r]
  have q: "fst (verificar_columna_numerica col False w) = Inr r" .
  have "df ?v = df ?q" by (simp add: df_verificar df_print)
  then have "fst (for_columnas cols False (setitem acc col r) ?v) =
             fst (for_columnas cols False (setitem acc col r) ?q)"
    by (rule for_columnas_df)
  with Cons.IH[OF m] q show ?case unfolding for_columnas_step by simp
qed

lemma multiples_returned_quiet:
  assumes "fst (verificar_multiples_columnas columnas True w) = Inr m"
  shows "fst (verificar_multiples_columnas columnas False w) = Inr m"
proof (cases columnas)
  case None
  from assms show ?thesis
    unfolding None multiples_None fst_multiples by (rule for_columnas_returned_quiet)
next
  case (Some cols)
  from assms show ?thesis
    unfolding Some fst_multiples by (rule for_columnas_returned_quiet)
qed

section \<open>The properties\<close>







text \<open>
  C3. Every report returned has \<open>cantidad_no_numericos\<close> equal to the length of
  \<open>valores_no_numericos\<close> and \<open>es_numerica\<close> equal to that count being zero, and no null
  cell is recorded: no recorded value is null, and every recorded pair of index and value
  comes from a cell of the column that is not null. Nothing is assumed of the dtype or of
  the number of nulls.
\<close>

theorem report_invariants:
  assumes "fst (verificar_columna_numerica c verbose w) = Inr r"
  shows "cantidad_no_numericos r = length (valores_no_numericos r) \<and>
         es_numerica r = (cantidad_no_numericos r = 0) \<and>
         (\<forall>v \<in> set (valores_no_numericos r). \<not> isnull v) \<and>
         (\<exists>s. getitem (df w) c = Inr s \<and>
            set (zip (indices_no_numericos r) (valores_no_numericos r))
              \<subseteq> (\<lambda>(i, v). (i, limpiar v)) ` {(i, v). (i, v) \<in> set (items s) \<and> \<not> isnull v})"
proof -
  from verificar_Inr_getitem[OF assms] obtain s where g: "getitem (df w) c = Inr s" ..
  show ?thesis
  proof (cases "is_numeric_dtype (dtype s)")
    case True
    note rep = numeric_report[OF g True assms]
    from rep(1-4) g show ?thesis by auto
  next
    case False
    note rep = scanned_report[OF g False assms]
    let ?bad = "filter (\<lambda>(i, v). \<not> isnull v \<and> \<not> parses v) (items s)"
    have z: "zip (indices_no_numericos r) (valores_no_numericos r) =
               map (\<lambda>(i, v). (i, limpiar v)) ?bad"
      unfolding rep(1) rep(2) by (rule zip_scanned)
    have "\<forall>v \<in> set (valores_no_numericos r). \<not> isnull v"
      unfolding rep(1) by (auto simp: isnull_limpiar)
    moreover have "set (zip (indices_no_numericos r) (valores_no_numericos r))
              \<subseteq> (\<lambda>(i, v). (i, limpiar v)) ` {(i, v). (i, v) \<in> set (items s) \<and> \<not> isnull v}"
      unfolding z by auto
    ultimately show ?thesis using rep(3) rep(4) g by auto
  qed
qed

theorem report_invariants_witness:
  "fst (verificar_columna_numerica ''a'' True tabla) = Inr informe_a \<and>
   cantidad_no_numericos informe_a = length (valores_no_numericos informe_a) \<and>
   es_numerica informe_a = (cantidad_no_numericos informe_a = 0) \<and>
   valores_no_numericos informe_a = [PyStr ''abc''] \<and> \<not> isnull (PyStr ''abc'') \<and>
   valores_nulos informe_a = 1"
  using report_invariants[OF tabla_a[of True]] tabla_a[of True]
  by (simp add: informe_a_def)




text \<open>
  C5. A column of a numeric dtype whose name no other column carries (the name finds the
  Series \<open>s\<close>) is reported without a scan of its cells: the report has \<open>es_numerica\<close> true, no
  offending values, indices or count, and the total, the number of nulls and the indices
  of the nulls of the column. The report is a function of the dtype, the length and the
  null cells alone; \<open>float\<close> is not called, so no error can come from a cell. The float64
  column \<open>c\<close> of \<open>tabla\<close>, with one NaN, is reported numeric with one null. A numeric column
  whose name another column carries is not reported: on \<open>tabla_numerica_repetida\<close>
  \<open>df[columna]\<close> is a DataFrame and source line 37 raises before the test of line 47.
\<close>

theorem numeric_dtype_short_circuit:
  assumes "getitem (df w) c = Inr s" and "is_numeric_dtype (dtype s)"
  shows "fst (verificar_columna_numerica c verbose w) =
           Inr \<lparr>es_numerica = True,
                tipo_dato = dtype_str (dtype s),
                valores_no_numericos = [],
                cantidad_no_numericos = 0,
                indices_no_numericos = [],
                total_valores = length (items s),
                valores_nulos = length (filter (\<lambda>(idx, valor). isnull valor) (items s)),
                indices_nulos = map fst (filter (\<lambda>(idx, valor). isnull valor) (items s))\<rparr>"
  using assms by (rule verificar_numeric)

theorem numeric_dtype_short_circuit_witness:
  "getitem (df tabla) ''c'' = Inr serie_c \<and> is_numeric_dtype (dtype serie_c) \<and>
   items serie_c = [(fila 0, PyFloat 0x3FF8000000000000), (fila 1, PyFloat 0x7FF8000000000000)] \<and>
   isnull (PyFloat 0x7FF8000000000000) \<and>
   fst (verificar_columna_numerica ''c'' True tabla) =
     Inr \<lparr>es_numerica = True, tipo_dato = ''float64'', valores_no_numericos = [],
          cantidad_no_numericos = 0, indices_no_numericos = [], total_valores = 2,
          valores_nulos = 1, indices_nulos = [fila 1]\<rparr>"
proof -
  have n: "is_numeric_dtype (dtype serie_c)" by (simp add: serie_c_def)
  from numeric_dtype_short_circuit[OF getitem_c n, of True] getitem_c n
  show ?thesis by (simp add: serie_c_def is_nan_def)
qed

theorem numeric_column_repeated_name_counterexample:
  "(''a'', serie_n) \<in> set (df tabla_numerica_repetida) \<and>
   is_numeric_dtype (dtype serie_n) \<and>
   fst (verificar_columna_numerica ''a'' False tabla_numerica_repetida) = Inl AttributeError \<and>
   fst (verificar_columna_numerica ''a'' True tabla_numerica_repetida) = Inl AttributeError"
  using tabla_nr[of False] tabla_nr[of True]
  by (simp add: tabla_numerica_repetida_def serie_n_def)

text \<open>
  C6. When a requested name is not a column of the table, the validator of several
  columns returns no dictionary: it raises. The error is the ValueError for that name when
  every name requested before it gets a report. Another error comes first when a name
  requested earlier is carried by several columns or its column holds an int too large
  for a double, as the tables \<open>tabla_repetida\<close> and \<open>tabla_grande\<close> show.
\<close>

theorem missing_column_aborts_batch:
  assumes "c \<in> set cols" and "c \<notin> set (columns (df w))"
  shows "(\<exists>e. fst (verificar_multiples_columnas (Some cols) verbose w) = Inl e) \<and>
         (\<forall>pre post.
            cols = pre @ c # post \<and>
            (\<forall>c' \<in> set pre. \<exists>r. fst (verificar_columna_numerica c' verbose w) = Inr r) \<longrightarrow>
            fst (verificar_multiples_columnas (Some cols) verbose w) =
              Inl (ValueError (NoExiste c (columns (df w)))))"
proof (intro conjI allI impI)
  have e: "fst (verificar_columna_numerica c verbose w) =
             Inl (ValueError (NoExiste c (columns (df w))))"
    using assms(2) by (simp add: verificar_absent)
  from for_columnas_some_raises[OF assms(1) e]
  show "\<exists>e. fst (verificar_multiples_columnas (Some cols) verbose w) = Inl e"
    by (simp add: fst_multiples)
  fix pre post
  assume "cols = pre @ c # post \<and>
            (\<forall>c' \<in> set pre. \<exists>r. fst (verificar_columna_numerica c' verbose w) = Inr r)"
  then show "fst (verificar_multiples_columnas (Some cols) verbose w) =
              Inl (ValueError (NoExiste c (columns (df w))))"
    using for_columnas_raises[OF _ e] by (simp add: fst_multiples)
qed

theorem missing_column_aborts_batch_witness:
  "''missing_col'' \<in> set [''a'', ''missing_col''] \<and>
   ''missing_col'' \<notin> set (columns (df tabla)) \<and>
   fst (verificar_columna_numerica ''a'' True tabla) = Inr informe_a \<and>
   fst (verificar_multiples_columnas (Some [''a'', ''missing_col'']) True tabla) =
     Inl (ValueError (NoExiste ''missing_col'' [''a'', ''e'', ''s'', ''c'']))"
proof -
  have m: "''missing_col'' \<in> set [''a'', ''missing_col'']" by simp
  have a: "''missing_col'' \<notin> set (columns (df tabla))" by (simp add: columns_tabla)
  from missing_column_aborts_batch[OF m a, of True]
  have "[''a'', ''missing_col''] = [''a''] @ ''missing_col'' # [] \<and>
        (\<forall>c' \<in> set [''a'']. \<exists>r. fst (verificar_columna_numerica c' True tabla) = Inr r) \<longrightarrow>
        fst (verificar_multiples_columnas (Some [''a'', ''missing_col'']) True tabla) =
          Inl (ValueError (NoExiste ''missing_col'' (columns (df tabla))))"
    by blast
  then show ?thesis using m a tabla_a[of True] by (simp add: columns_tabla)
qed

theorem other_error_first_counterexample:
  "''missing_col'' \<notin> set (columns (df tabla_repetida)) \<and>
   fst (verificar_multiples_columnas (Some [''a'', ''missing_col'']) False tabla_repetida) =
     Inl AttributeError \<and>
   ''missing_col'' \<notin> set (columns (df tabla_grande)) \<and>
   fst (verificar_multiples_columnas (Some [''g'', ''missing_col'']) False tabla_grande) =
     Inl OverflowError"
  using for_columnas_raises[of "[]" False tabla_grande "''g''" OverflowError "[''missing_col'']" "[]"]
    for_columnas_raises[of "[]" False tabla_repetida "''a''" AttributeError "[''missing_col'']" "[]"]
    tabla_g[of False] tabla_rep[of False]
  by (simp add: fst_multiples tabla_grande_def tabla_repetida_def columns_def)

text \<open>
  C7. When every requested column gets a report from the validator, the validator of
  several columns returns a dictionary with one entry for each requested name, that
  entry being the report of the validator for the name, the keys in the order in which the
  names first occur in the request (the request itself when no name repeats). With no
  request it is the call with all the column names of the table in their order. That
  every requested name is a column is not enough for a dictionary to be returned, as the
  tables \<open>tabla_repetida\<close> and \<open>tabla_grande\<close> show.
\<close>

theorem one_entry_per_column:
  assumes "\<forall>c \<in> set cols. fst (verificar_columna_numerica c verbose w) = Inr (f c)"
  shows "fst (verificar_multiples_columnas (Some cols) verbose w) =
           Inr (map (\<lambda>c. (c, f c)) (first_occurrences cols)) \<and>
         set (first_occurrences cols) = set cols \<and> distinct (first_occurrences cols) \<and>
         (distinct cols \<longrightarrow> first_occurrences cols = cols) \<and>
         verificar_multiples_columnas None verbose w =
           verificar_multiples_columnas (Some (columns (df w))) verbose w"
  using for_columnas_all[OF assms, of "[]"]
  by (simp add: fst_multiples foldl_setitem_empty set_first_occurrences
      distinct_first_occurrences first_occurrences_distinct multiples_None)

theorem one_entry_per_column_witness:
  "fst (verificar_columna_numerica ''a'' True tabla) = Inr informe_a \<and>
   fst (verificar_columna_numerica ''c'' True tabla) = Inr informe_c \<and>
   fst (verificar_multiples_columnas (Some [''a'', ''c'', ''a'']) True tabla) =
     Inr [(''a'', informe_a), (''c'', informe_c)]"
proof -
  have "\<forall>c \<in> set [''a'', ''c'', ''a''].
          fst (verificar_columna_numerica c True tabla) =
            Inr ((\<lambda>c. if c = ''a'' then informe_a else informe_c) c)"
    using tabla_a[of True] tabla_c[of True] by simp
  from one_entry_per_column[OF this] tabla_a[of True] tabla_c[of True]
  show ?thesis by (simp add: first_occurrences_def)
qed

theorem existing_columns_no_mapping_counterexample:
  "set [''a''] \<subseteq> set (columns (df tabla_repetida)) \<and>
   fst (verificar_multiples_columnas (Some [''a'']) False tabla_repetida) = Inl AttributeError \<and>
   set [''g''] \<subseteq> set (columns (df tabla_grande)) \<and>
   fst (verificar_multiples_columnas (Some [''g'']) False tabla_grande) = Inl OverflowError"
  using for_columnas_raises[of "[]" False tabla_grande "''g''" OverflowError "[]" "[]"]
    for_columnas_raises[of "[]" False tabla_repetida "''a''" AttributeError "[]" "[]"]
    tabla_g[of False] tabla_rep[of False]
  by (simp add: fst_multiples tabla_grande_def tabla_repetida_def columns_def)

text \<open>
  C8. Neither validator changes the table: the DataFrame in the state after the call is
  the one before it, whether the call returns or raises.
\<close>

theorem table_unchanged:
  "df (snd (verificar_columna_numerica c verbose w)) = df w \<and>
   df (snd (verificar_multiples_columnas columnas verbose w)) = df w"
  by (simp add: df_verificar df_multiples)

theorem table_unchanged_witness:
  "df (snd (verificar_columna_numerica ''a'' True tabla)) = df tabla \<and>
   df (snd (verificar_columna_numerica ''zz'' True tabla)) = df tabla \<and>
   df (snd (verificar_multiples_columnas None True tabla)) = df tabla \<and>
   df (snd (verificar_multiples_columnas (Some [''a'', ''zz'']) True tabla)) = df tabla"
  using table_unchanged[of "''a''" True tabla None]
    table_unchanged[of "''zz''" True tabla "Some [''a'', ''zz'']"]
  by simp

text \<open>
  C9. \<open>verbose\<close> is meant to change only what is printed, and with \<open>verbose\<close> off nothing
  is printed. It can change the result: on the table \<open>tabla_multi\<close>, whose row has the
  label \<open>(2024, 'ene')\<close>, the validator returns a report with \<open>verbose\<close> off and raises
  TypeError with \<open>verbose\<close> on, where source line 127 formats the label with a width; so does
  the validator of several columns. (When the call with \<open>verbose\<close> on returns, it returns
  what the call with \<open>verbose\<close> off returns: \<open>verificar_returned_quiet\<close>,
  \<open>multiples_returned_quiet\<close>.)
\<close>

theorem verbose_changes_result:
  "fst (verificar_columna_numerica ''m'' False tabla_multi) = Inr informe_m \<and>
   fst (verificar_columna_numerica ''m'' True tabla_multi) = Inl TypeError \<and>
   fst (verificar_multiples_columnas (Some [''m'']) False tabla_multi) =
     Inr [(''m'', informe_m)] \<and>
   fst (verificar_multiples_columnas (Some [''m'']) True tabla_multi) = Inl TypeError"
proof -
  have "\<forall>c \<in> set [''m'']. fst (verificar_columna_numerica c False tabla_multi) =
          Inr ((\<lambda>c. informe_m) c)"
    using tabla_m_quiet by simp
  from for_columnas_all[OF this, of "[]"]
  have "fst (verificar_multiples_columnas (Some [''m'']) False tabla_multi) =
          Inr [(''m'', informe_m)]"
    by (simp add: fst_multiples)
  moreover from for_columnas_raises[of "[]" True tabla_multi "''m''" TypeError "[]" "[]"]
    tabla_m_verbose
  have "fst (verificar_multiples_columnas (Some [''m'']) True tabla_multi) = Inl TypeError"
    by (simp add: fst_multiples)
  ultimately show ?thesis using tabla_m_quiet tabla_m_verbose by simp
qed




end
